theory Spec2Isabelle
  imports Complex_Main "HOL-Library.Word" "HOL-Library.Signed_Division"
begin

section \<open>Machine types and failures\<close>

text \<open>
  The library is C++ on an LP64 platform: \<^verbatim>\<open>std::size_t\<close> is an unsigned 64-bit
  integer whose arithmetic wraps, \<^verbatim>\<open>long\<close> (the iterators' \<^verbatim>\<open>difference_type\<close>) is a
  signed 64-bit integer and \<^verbatim>\<open>int\<close> a signed 32-bit integer. Adding a \<^verbatim>\<open>long\<close> to a
  \<^verbatim>\<open>std::size_t\<close> converts it to \<^verbatim>\<open>std::size_t\<close> first, which keeps its 64 bits, so
  a \<^verbatim>\<open>difference_type\<close> argument of an iterator is a \<open>size_t\<close> here as well.

  A thrown exception is the left summand of a result; so is a step on which the C++
  standard puts no requirement (signed overflow, division by zero, an index or an
  iterator outside its container). A call that does not return is \<open>None\<close>.
  Containers (\<^verbatim>\<open>std::vector\<close>, \<^verbatim>\<open>std::deque\<close>) are lists; a container's \<^verbatim>\<open>size()\<close> is the
  length of the list as a \<open>size_t\<close> (a container has fewer than \<open>2^63\<close> elements, its
  \<^verbatim>\<open>max_size()\<close>), and a position in a container is a \<open>nat\<close>.
\<close>

type_synonym size_t = "64 word"

type_synonym c_int = "32 word"

datatype error = overflow_error | undefined_behaviour

definition in_int :: "int \<Rightarrow> bool" where
  "in_int x \<longleftrightarrow> - (2 ^ 31) \<le> x \<and> x < 2 ^ 31"

definition in_long :: "int \<Rightarrow> bool" where
  "in_long x \<longleftrightarrow> - (2 ^ 63) \<le> x \<and> x < 2 ^ 63"

section \<open>The standard library's algorithms\<close>

text \<open>
  \<^verbatim>\<open>std::sort\<close> on a linear order is \<^const>\<open>sort\<close> and \<^verbatim>\<open>std::count\<close> is
  \<^const>\<open>count_list\<close>. \<^verbatim>\<open>std::accumulate(first, last, 0)\<close> and
  \<^verbatim>\<open>std::inner_product(first1, last1, first2, 0)\<close> are called by the library with the
  literal \<open>0\<close>, so they accumulate in an \<^verbatim>\<open>int\<close>: every step converts the accumulator to
  \<^verbatim>\<open>std::size_t\<close> (sign extension), adds, and narrows the sum to 32 bits again.
\<close>

definition int_accumulate :: "size_t list \<Rightarrow> c_int" where
  "int_accumulate ks = fold (\<lambda>k init. ucast ((scast init :: size_t) + k)) ks 0"

definition int_inner_product :: "size_t list \<Rightarrow> size_t list \<Rightarrow> c_int" where
  "int_inner_product xs ys =
     fold (\<lambda>(x, y) init. ucast ((scast init :: size_t) + x * y)) (zip xs ys) 0"

text \<open>
  \<^verbatim>\<open>std::next_permutation\<close> scans from the right for the last position \<open>i\<close> whose
  element is smaller than its right neighbour; everything right of \<open>i\<close> is then
  non-increasing. It swaps the element at \<open>i\<close> with the rightmost element greater than
  it and reverses the part right of \<open>i\<close>. When there is no such position it reverses
  the whole range (and returns false, which the library ignores).
  \<open>permute_suffix\<close> is that scan: the recursion reaches the rightmost suffix first,
  and \<open>swap_reverse\<close> does the swap and the reversal, reading the suffix from the right
  (its search for a greater element always finds one, the right neighbour at the latest).
  \<^verbatim>\<open>std::prev_permutation\<close> is the same algorithm with the comparison turned around.
\<close>

definition swap_reverse :: "('a \<Rightarrow> 'a \<Rightarrow> bool) \<Rightarrow> 'a \<Rightarrow> 'a list \<Rightarrow> 'a list" where
  "swap_reverse lt x suffix =
     (let r = rev suffix
      in case dropWhile (\<lambda>z. \<not> lt x z) r of
           [] \<Rightarrow> x # suffix
         | z # rest \<Rightarrow> z # takeWhile (\<lambda>z. \<not> lt x z) r @ x # rest)"

fun permute_suffix :: "('a \<Rightarrow> 'a \<Rightarrow> bool) \<Rightarrow> 'a list \<Rightarrow> 'a list option" where
  "permute_suffix lt [] = None"
| "permute_suffix lt [x] = None"
| "permute_suffix lt (x # y # ys) =
     (case permute_suffix lt (y # ys) of
        Some zs \<Rightarrow> Some (x # zs)
      | None \<Rightarrow> if lt x y then Some (swap_reverse lt x (y # ys)) else None)"

definition next_permutation :: "'a::linorder list \<Rightarrow> 'a list" where
  "next_permutation xs = (case permute_suffix (<) xs of Some ys \<Rightarrow> ys | None \<Rightarrow> rev xs)"

definition prev_permutation :: "'a::linorder list \<Rightarrow> 'a list" where
  "prev_permutation xs = (case permute_suffix (>) xs of Some ys \<Rightarrow> ys | None \<Rightarrow> rev xs)"

section \<open>combinatorics.cpp and combinatorics.hpp\<close>

subsection \<open>The binomial coefficient\<close>

text \<open>
  \<^verbatim>\<open>BCImpl<std::size_t>::eval(n, k)\<close>: the two base cases are tested first, then the
  guard \<^verbatim>\<open>n < sizeof(std::size_t) * 8\<close> chooses between Pascal's rule and
  \<^verbatim>\<open>throw std::overflow_error\<close>. An exception of a recursive call propagates.
\<close>

function BCImpl_eval :: "size_t \<Rightarrow> size_t \<Rightarrow> error + size_t" where
  "BCImpl_eval n k =
     (if k = 0 then Inr 1
      else if k > n then Inr 0
      else if n < 64 then
        (case BCImpl_eval (n - 1) (k - 1) of
           Inl e \<Rightarrow> Inl e
         | Inr a \<Rightarrow> (case BCImpl_eval (n - 1) k of
                      Inl e \<Rightarrow> Inl e
                    | Inr b \<Rightarrow> Inr (a + b)))
      else Inl overflow_error)"
  by pat_completeness auto
termination
proof (relation "measure (\<lambda>(n, k). unat n)")
  show "wf (measure (\<lambda>(n::size_t, k::size_t). unat n))" by simp
next
  fix n k :: size_t
  assume "k \<noteq> 0" "\<not> n < k"
  then have "n \<noteq> 0" by (metis word_le_0_iff not_less)
  then show "((n - 1, k - 1), (n, k)) \<in> measure (\<lambda>(n, k). unat n)"
    by (simp add: unat_minus_one unat_gt_0)
  fix x
  show "((n - 1, k), (n, k)) \<in> measure (\<lambda>(n, k). unat n)"
    using \<open>n \<noteq> 0\<close> by (simp add: unat_minus_one unat_gt_0)
qed

declare BCImpl_eval.simps [simp del]

text \<open>\<^verbatim>\<open>binomial_coefficient<std::size_t>(n, k)\<close> forwards to the implementation.\<close>

definition binomial_coefficient :: "size_t \<Rightarrow> size_t \<Rightarrow> error + size_t" where
  "binomial_coefficient n k = BCImpl_eval n k"

subsection \<open>The multinomial coefficient and the number of permutations\<close>

text \<open>
  \<^verbatim>\<open>MCImpl<std::size_t>::eval(ks)\<close>. \<open>MC_step\<close> is the body of the inner loop for one
  \<open>i\<close>; the inner loop \<^verbatim>\<open>for(size_t i = 1; i <= k; ++i)\<close> runs it for \<open>i = 1, \<dots>, k\<close>.
  This is the loop of the source for every \<open>k\<close> below \<open>2^64 - 1\<close>; at \<open>k = 2^64 - 1\<close> the
  counter wraps to 0 instead of leaving the loop and the next \<^verbatim>\<open>result % i\<close> divides by
  zero. The entries of \<open>ks\<close> that the library passes are run lengths of a container,
  which has fewer than \<open>2^63\<close> elements. The numerator starts as the \<^verbatim>\<open>int\<close> sum of \<open>ks\<close>.
\<close>

definition MC_step :: "size_t \<Rightarrow> size_t \<times> size_t \<Rightarrow> size_t \<times> size_t" where
  "MC_step i = (\<lambda>(result, numerator).
     (let result = result * numerator;
          result = (result - result mod i) div i
      in (result, numerator - 1)))"

definition MCImpl_eval :: "size_t list \<Rightarrow> size_t" where
  "MCImpl_eval ks =
     fst (fold (\<lambda>k. fold MC_step (map of_nat [1..<Suc (unat k)])) ks
            (1, scast (int_accumulate ks)))"

definition multinomial_coefficient :: "size_t list \<Rightarrow> size_t" where
  "multinomial_coefficient ks = MCImpl_eval ks"

text \<open>
  \<^verbatim>\<open>n_permutations(seq)\<close> sorts a copy and walks it run by run: \<open>run_lengths\<close> is the
  \<^verbatim>\<open>while(ei != temp.end())\<close> loop, which counts the elements equal to \<^verbatim>\<open>*ei\<close> from
  \<^verbatim>\<open>ei\<close> on and skips that many.
\<close>

function run_lengths :: "'a list \<Rightarrow> size_t list" where
  "run_lengths [] = []"
| "run_lengths (e # es) =
     (let n_ei = count_list (e # es) e
      in of_nat n_ei # run_lengths (drop n_ei (e # es)))"
  by pat_completeness auto
termination
  by (relation "measure length") auto

definition n_permutations :: "'a::linorder list \<Rightarrow> size_t" where
  "n_permutations seq = multinomial_coefficient (run_lengths (sort seq))"

subsection \<open>The factorial number system\<close>

text \<open>
  \<^verbatim>\<open>permutation_to_fns(perm, original)\<close>. \<open>find_digit\<close> is the \<^verbatim>\<open>for\<close> loop over
  \<^verbatim>\<open>original\<close>: it stops at the first element equal to \<^verbatim>\<open>ei\<close>, whose index is the
  digit, and \<^verbatim>\<open>new_orig\<close> receives all other elements; when no element is equal the
  digit stays 0 and \<^verbatim>\<open>new_orig\<close> is all of \<^verbatim>\<open>original\<close>.
\<close>

fun find_digit :: "'a \<Rightarrow> 'a list \<Rightarrow> nat \<Rightarrow> 'a list \<Rightarrow> nat \<times> 'a list" where
  "find_digit ei [] i new_orig = (0, new_orig)"
| "find_digit ei (ej # rest) i new_orig =
     (if ej = ei then (i, new_orig @ rest)
      else find_digit ei rest (Suc i) (new_orig @ [ej]))"

fun permutation_to_fns :: "'a list \<Rightarrow> 'a list \<Rightarrow> size_t list" where
  "permutation_to_fns [] original = []"
| "permutation_to_fns [e] original = [0]"
| "permutation_to_fns (ei # sub_perm) original =
     (let (digit, new_orig) = find_digit ei original 0 []
      in of_nat digit # permutation_to_fns sub_perm new_orig)"

text \<open>
  \<^verbatim>\<open>fns_to_permutation(fns, original)\<close>. \<open>pick_digit\<close> is the inner loop over \<^verbatim>\<open>temp\<close>
  for one digit \<open>x\<close>: the element at index \<open>x\<close> goes to the result, the others to
  \<^verbatim>\<open>temp2\<close>, which replaces \<^verbatim>\<open>temp\<close>.
\<close>

fun pick_digit :: "size_t \<Rightarrow> 'a list \<Rightarrow> nat \<Rightarrow> 'a list \<times> 'a list \<Rightarrow> 'a list \<times> 'a list" where
  "pick_digit x [] i (temp2, rv) = (temp2, rv)"
| "pick_digit x (e # es) i (temp2, rv) =
     (if of_nat i \<noteq> x then pick_digit x es (Suc i) (temp2 @ [e], rv)
      else pick_digit x es (Suc i) (temp2, rv @ [e]))"

fun fns_to_permutation_loop :: "size_t list \<Rightarrow> 'a list \<Rightarrow> 'a list \<Rightarrow> 'a list" where
  "fns_to_permutation_loop [] temp rv = rv"
| "fns_to_permutation_loop (x # fns) temp rv =
     (let (temp2, rv) = pick_digit x temp 0 ([], rv)
      in fns_to_permutation_loop fns temp2 rv)"

definition fns_to_permutation :: "size_t list \<Rightarrow> 'a list \<Rightarrow> 'a list" where
  "fns_to_permutation fns original = fns_to_permutation_loop fns original []"

text \<open>\<^verbatim>\<open>fns_place_values(perm)\<close>, with the unsigned division of the source.\<close>

fun fns_place_values :: "'a::linorder list \<Rightarrow> size_t list" where
  "fns_place_values [] = []"
| "fns_place_values [a] = [1]"
| "fns_place_values [a, b] = [1, 1]"
| "fns_place_values (e # sub_perm) =
     (n_permutations (e # sub_perm) div of_nat (length (e # sub_perm)))
       # fns_place_values sub_perm"

text \<open>
  \<^verbatim>\<open>decimal_to_fns(D, orig)\<close>. \<open>guess_digit\<close> is the inner \<^verbatim>\<open>while\<close> loop with
  \<^verbatim>\<open>curr_guess\<close> as a position in \<^verbatim>\<open>new_orig\<close>: it returns the digit, the container
  without the chosen element and the reduced \<open>D\<close> when it leaves by \<^verbatim>\<open>break\<close>, and
  \<open>None\<close> when \<^verbatim>\<open>curr_guess\<close> reaches the end. \<^verbatim>\<open>std::advance\<close> beyond the end is
  undefined. The outer loop \<open>decimal_to_fns_loop\<close> runs until \<^verbatim>\<open>new_orig\<close> is empty; a
  round of the inner loop that ends without \<^verbatim>\<open>break\<close> leaves \<^verbatim>\<open>new_orig\<close>, \<open>D\<close> and
  \<^verbatim>\<open>rv\<close> as they were, and the outer loop goes round again.
\<close>

function guess_digit ::
  "'a::linorder list \<Rightarrow> size_t \<Rightarrow> nat \<Rightarrow> size_t \<Rightarrow> size_t
     \<Rightarrow> error + (size_t \<times> 'a list \<times> size_t) option" where
  "guess_digit new_orig D curr_guess total_perms digit_i =
     (if curr_guess = length new_orig then Inr None
      else if length new_orig < curr_guess then Inl undefined_behaviour
      else
        (let ei = new_orig ! curr_guess;
             temp = take curr_guess new_orig @ drop (Suc curr_guess) new_orig;
             P_ei = n_permutations temp;
             total_perms = total_perms + P_ei
         in if D < total_perms then Inr (Some (digit_i, temp, D - (total_perms - P_ei)))
            else
              (let n_ei = count_list temp ei
               in guess_digit new_orig D (Suc curr_guess + n_ei) total_perms
                    (digit_i + (1 + of_nat n_ei)))))"
  by pat_completeness auto
termination
  by (relation "measure (\<lambda>(new_orig, D, curr_guess, total_perms, digit_i).
        length new_orig - curr_guess)") auto

declare guess_digit.simps [simp del]

partial_function (option) decimal_to_fns_loop ::
  "'a::linorder list \<Rightarrow> size_t \<Rightarrow> size_t list \<Rightarrow> (error + size_t list) option" where
  "decimal_to_fns_loop new_orig D rv =
     (if new_orig = [] then Some (Inr rv)
      else (case guess_digit new_orig D 0 0 0 of
              Inl e \<Rightarrow> Some (Inl e)
            | Inr (Some (digit_i, temp, D')) \<Rightarrow> decimal_to_fns_loop temp D' (rv @ [digit_i])
            | Inr None \<Rightarrow> decimal_to_fns_loop new_orig D rv))"

declare decimal_to_fns_loop.simps [code]

definition decimal_to_fns :: "size_t \<Rightarrow> 'a::linorder list \<Rightarrow> (error + size_t list) option" where
  "decimal_to_fns D orig = decimal_to_fns_loop (sort orig) D []"

definition permutation_to_decimal :: "'a::linorder list \<Rightarrow> 'a list \<Rightarrow> size_t" where
  "permutation_to_decimal perm original =
     (let fns = permutation_to_fns perm original;
          values = fns_place_values perm
      in scast (int_inner_product fns values))"

definition decimal_to_permutation ::
  "size_t \<Rightarrow> 'a::linorder list \<Rightarrow> (error + 'a list) option" where
  "decimal_to_permutation n original =
     map_option (map_sum id (\<lambda>fns. fns_to_permutation fns original)) (decimal_to_fns n original)"

section \<open>range_container.hpp\<close>

text \<open>
  \<^verbatim>\<open>RangeContainer<IteratorType>\<close> keeps the two iterators and the size that its
  constructor is given (the fields \<^verbatim>\<open>start_\<close>, \<^verbatim>\<open>end_\<close> and \<^verbatim>\<open>size_\<close>; a field \<^verbatim>\<open>x_\<close> of a
  class is written with the initials of the class in front here).
\<close>

record 'i RangeContainer =
  rc_start :: 'i
  rc_end :: 'i
  rc_size :: size_t

definition RangeContainer_size :: "'i RangeContainer \<Rightarrow> size_t" where
  "RangeContainer_size c = rc_size c"

text \<open>
  A range-based \<^verbatim>\<open>for\<close> over one of the library's containers:
  \<^verbatim>\<open>for(it = c.begin(); it != c.end(); ++it)\<close> with \<^verbatim>\<open>*it\<close> read in the body. The
  iterator bases implement \<^verbatim>\<open>!=\<close>, \<^verbatim>\<open>*\<close> and \<^verbatim>\<open>++\<close> by \<^verbatim>\<open>are_equal\<close>, \<^verbatim>\<open>dereference\<close> and
  \<^verbatim>\<open>increment\<close> of the iterator class. The loop collects the values it reads.
\<close>

partial_function (option) range_for ::
  "('i \<Rightarrow> 'i \<Rightarrow> bool) \<Rightarrow> ('i \<Rightarrow> error + 'v) \<Rightarrow> ('i \<Rightarrow> (error + 'i) option)
     \<Rightarrow> 'i \<Rightarrow> 'i \<Rightarrow> 'v list \<Rightarrow> (error + 'v list) option" where
  "range_for are_equal dereference increment it end_it seen =
     (if are_equal it end_it then Some (Inr seen)
      else (case dereference it of
              Inl e \<Rightarrow> Some (Inl e)
            | Inr v \<Rightarrow> (case increment it of
                 None \<Rightarrow> None
               | Some (Inl e) \<Rightarrow> Some (Inl e)
               | Some (Inr it') \<Rightarrow>
                   range_for are_equal dereference increment it' end_it (seen @ [v]))))"

declare range_for.simps [code]

section \<open>range.hpp\<close>

text \<open>
  \<^verbatim>\<open>RangeItr<element_type>\<close> and \<^verbatim>\<open>RangeImpl<element_type>\<close> at \<^verbatim>\<open>element_type = int\<close>,
  the type of the test suite's ranges. Values are integers here; where the source
  computes in \<^verbatim>\<open>int\<close> or \<^verbatim>\<open>long\<close> the model asks that the exact result fits (signed
  overflow is undefined), and the narrowing of a \<^verbatim>\<open>long\<close> to \<^verbatim>\<open>int\<close> in \<^verbatim>\<open>value_ += adv\<close>
  keeps the low 32 bits.
\<close>

record RangeItr =
  r_start :: int
  r_stop :: int
  r_increment :: int
  r_value :: int

definition RangeItr_ctor :: "int \<Rightarrow> int \<Rightarrow> int \<Rightarrow> RangeItr" where
  "RangeItr_ctor start stop increment =
     \<lparr>r_start = start, r_stop = stop, r_increment = increment, r_value = start\<rparr>"


definition RangeItr_advance :: "RangeItr \<Rightarrow> int \<Rightarrow> error + RangeItr" where
  "RangeItr_advance it adv =
     (if adv > 0 then
        (if in_long (r_value it + adv)
         then Inr (it\<lparr>r_value := signed_take_bit 31 (r_value it + adv)\<rparr>)
         else Inl undefined_behaviour)
      else
        (if in_long (- 1 * adv) \<and> in_long (r_value it - (- 1 * adv))
         then Inr (it\<lparr>r_value := signed_take_bit 31 (r_value it - (- 1 * adv))\<rparr>)
         else Inl undefined_behaviour))"


definition RangeItr_decrement :: "RangeItr \<Rightarrow> error + RangeItr" where
  "RangeItr_decrement it =
     (if in_long (- 1 * r_increment it) then RangeItr_advance it (- 1 * r_increment it)
      else Inl undefined_behaviour)"


text \<open>
  The constructor of \<^verbatim>\<open>RangeImpl\<close>: the size is
  \<^verbatim>\<open>stop > start ? (stop - start) / increment : (start - stop) / (-1 * increment)\<close>,
  a \<^verbatim>\<open>long\<close> division (truncating, \<open>sdiv\<close>) whose quotient is converted to
  \<^verbatim>\<open>size_type\<close>.
\<close>

definition RangeImpl :: "int \<Rightarrow> int \<Rightarrow> int \<Rightarrow> error + RangeItr RangeContainer" where
  "RangeImpl start stop increment =
     (case (if stop > start then
              (if in_int (stop - start) \<and> increment \<noteq> 0
               then Inr ((stop - start) sdiv increment)
               else Inl undefined_behaviour)
            else
              (if in_int (start - stop) \<and> in_long (- 1 * increment) \<and> - 1 * increment \<noteq> 0
               then Inr ((start - stop) sdiv (- 1 * increment))
               else Inl undefined_behaviour)) of
        Inl e \<Rightarrow> Inl e
      | Inr q \<Rightarrow> Inr \<lparr>rc_start = RangeItr_ctor start stop increment,
                      rc_end = RangeItr_ctor stop stop increment,
                      rc_size = word_of_int q\<rparr>)"

text \<open>
  The two wrappers \<^verbatim>\<open>Range(stop)\<close> and \<^verbatim>\<open>Range(start, stop, increment)\<close>, named apart
  from the \<open>Range\<close> of a relation.
\<close>

definition Range_stop :: "int \<Rightarrow> error + RangeItr RangeContainer" where
  "Range_stop stop = RangeImpl 0 stop 1"



section \<open>permutations.hpp\<close>

text \<open>
  \<^verbatim>\<open>PermutationItr<SequenceType>\<close> with its five fields. The constructor copies the
  input, sorts a second copy and computes \<^verbatim>\<open>dx_\<close>; the default constructor leaves the
  sequences empty and the counters 0.
\<close>

record 'a PermutationItr =
  p_orig_set :: "'a list"
  p_sorted_orig :: "'a list"
  p_set :: "'a list"
  p_offset :: size_t
  p_dx :: size_t

definition PermutationItr_default :: "'a PermutationItr" where
  "PermutationItr_default =
     \<lparr>p_orig_set = [], p_sorted_orig = [], p_set = [], p_offset = 0, p_dx = 0\<rparr>"

definition PermutationItr_ctor :: "'a::linorder list \<Rightarrow> size_t \<Rightarrow> 'a PermutationItr" where
  "PermutationItr_ctor input_set offset =
     \<lparr>p_orig_set = input_set, p_sorted_orig = sort input_set, p_set = input_set,
      p_offset = offset, p_dx = permutation_to_decimal input_set (sort input_set)\<rparr>"

definition PermutationItr_dereference :: "'a PermutationItr \<Rightarrow> 'a list" where
  "PermutationItr_dereference it = p_set it"

definition PermutationItr_increment :: "'a::linorder PermutationItr \<Rightarrow> 'a PermutationItr" where
  "PermutationItr_increment it =
     it\<lparr>p_set := next_permutation (p_set it), p_offset := p_offset it + 1\<rparr>"

definition PermutationItr_decrement :: "'a::linorder PermutationItr \<Rightarrow> 'a PermutationItr" where
  "PermutationItr_decrement it =
     it\<lparr>p_set := prev_permutation (p_set it), p_offset := p_offset it - 1\<rparr>"

definition PermutationItr_are_equal :: "'a PermutationItr \<Rightarrow> 'a PermutationItr \<Rightarrow> bool" where
  "PermutationItr_are_equal it rhs \<longleftrightarrow>
     p_orig_set it = p_orig_set rhs \<and> p_set it = p_set rhs \<and> p_offset it = p_offset rhs"

text \<open>
  \<^verbatim>\<open>advance(n)\<close> asks \<^verbatim>\<open>decimal_to_permutation\<close> for the permutation number
  \<^verbatim>\<open>offset_ + dx_ + n\<close> of the sorted sequence and then adds \<open>n\<close> to the offset.
\<close>

definition PermutationItr_advance ::
  "'a::linorder PermutationItr \<Rightarrow> size_t \<Rightarrow> (error + 'a PermutationItr) option" where
  "PermutationItr_advance it n =
     (case decimal_to_permutation (p_offset it + p_dx it + n) (p_sorted_orig it) of
        None \<Rightarrow> None
      | Some (Inl e) \<Rightarrow> Some (Inl e)
      | Some (Inr p) \<Rightarrow> Some (Inr (it\<lparr>p_set := p, p_offset := p_offset it + n\<rparr>)))"

text \<open>\<open>n\<close> single steps, one at a time: increments for \<open>n\<close> forward, decrements back.\<close>

definition PermutationItr_steps :: "'a::linorder PermutationItr \<Rightarrow> int \<Rightarrow> 'a PermutationItr" where
  "PermutationItr_steps it n =
     (if 0 \<le> n then (PermutationItr_increment ^^ nat n) it
      else (PermutationItr_decrement ^^ nat (- n)) it)"

text \<open>\<^verbatim>\<open>Permutations(container)\<close>: the iterators at offsets 0 and \<^verbatim>\<open>nperms\<close>.\<close>

definition Permutations :: "'a::linorder list \<Rightarrow> 'a PermutationItr RangeContainer" where
  "Permutations container =
     (let nperms = n_permutations container
      in \<lparr>rc_start = PermutationItr_ctor container 0,
          rc_end = PermutationItr_ctor container nperms,
          rc_size = nperms\<rparr>)"

definition Permutations_elements ::
  "'a::linorder PermutationItr RangeContainer \<Rightarrow> (error + 'a list list) option" where
  "Permutations_elements c =
     range_for PermutationItr_are_equal (\<lambda>it. Inr (PermutationItr_dereference it))
       (\<lambda>it. Some (Inr (PermutationItr_increment it))) (rc_start c) (rc_end c) []"

section \<open>combinations.hpp\<close>

text \<open>
  \<^verbatim>\<open>CombinationItr<SequenceType, repeat>\<close>; the template parameter \<^verbatim>\<open>repeat\<close> is the
  first argument of each function. \<open>update_comb_loop\<close> is the \<^verbatim>\<open>for\<close> loop of
  \<^verbatim>\<open>update_comb\<close> over the mask \<open>p\<close> from position \<open>i\<close> on; it writes \<^verbatim>\<open>comb_\<close> in
  place and leaves when \<^verbatim>\<open>counter\<close> has reached the size of \<^verbatim>\<open>comb_\<close>. An index
  outside \<^verbatim>\<open>comb_\<close> or \<^verbatim>\<open>set_\<close> is undefined.
\<close>

record 'a CombinationItr =
  c_set :: "'a list"
  c_comb :: "'a list"
  c_current_perm :: "bool PermutationItr"

fun update_comb_loop ::
  "bool \<Rightarrow> 'a list \<Rightarrow> bool list \<Rightarrow> nat \<Rightarrow> nat \<Rightarrow> nat \<Rightarrow> 'a list \<Rightarrow> error + 'a list" where
  "update_comb_loop repeat s [] i counter bar_count comb = Inr comb"
| "update_comb_loop repeat s (p_i # p) i counter bar_count comb =
     (if \<not> p_i then
        (let j = (if \<not> repeat then i else bar_count)
         in if counter < length comb \<and> j < length s then
              (let comb = comb[counter := s ! j]; counter = Suc counter
               in if counter = length comb then Inr comb
                  else update_comb_loop repeat s p (Suc i) counter bar_count comb)
            else Inl undefined_behaviour)
      else
        (let bar_count = Suc bar_count
         in if counter = length comb then Inr comb
            else update_comb_loop repeat s p (Suc i) counter bar_count comb))"

definition update_comb :: "bool \<Rightarrow> 'a CombinationItr \<Rightarrow> error + 'a CombinationItr" where
  "update_comb repeat it =
     (case update_comb_loop repeat (c_set it) (PermutationItr_dereference (c_current_perm it))
             0 0 0 (c_comb it) of
        Inl e \<Rightarrow> Inl e
      | Inr comb \<Rightarrow> Inr (it\<lparr>c_comb := comb\<rparr>))"

text \<open>
  The constructor: \<^verbatim>\<open>comb_(k)\<close> holds \<open>k\<close> value-initialised elements, the mask has
  \<open>n\<close> entries without repetition and \<^verbatim>\<open>n + k - 1\<close> with it (0 when \<open>n\<close> and \<open>k\<close> are both
  0), all true, and its first \<open>k\<close> entries are set to false one by one, which is
  undefined when the mask is shorter than \<open>k\<close>.
\<close>

definition CombinationItr_ctor ::
  "bool \<Rightarrow> 'a::zero list \<Rightarrow> size_t \<Rightarrow> bool \<Rightarrow> error + 'a CombinationItr" where
  "CombinationItr_ctor repeat input_set k at_end =
     (let n = of_nat (length input_set) :: size_t;
          eff_size = (if n \<noteq> 0 \<or> k \<noteq> 0 then n + k - 1 else 0);
          temp = replicate (unat (if \<not> repeat then n else eff_size)) True
      in if length temp < unat k then Inl undefined_behaviour
         else
           (let temp = fold (\<lambda>i t. t[i := False]) [0..<unat k] temp;
                perms = Permutations temp;
                current_perm = (if at_end then rc_end perms else rc_start perms)
            in update_comb repeat
                 \<lparr>c_set = input_set, c_comb = replicate (unat k) 0,
                  c_current_perm = current_perm\<rparr>))"

definition CombinationItr_dereference :: "'a CombinationItr \<Rightarrow> 'a list" where
  "CombinationItr_dereference it = c_comb it"

definition CombinationItr_increment :: "bool \<Rightarrow> 'a CombinationItr \<Rightarrow> error + 'a CombinationItr" where
  "CombinationItr_increment repeat it =
     update_comb repeat (it\<lparr>c_current_perm := PermutationItr_increment (c_current_perm it)\<rparr>)"

definition CombinationItr_are_equal :: "'a CombinationItr \<Rightarrow> 'a CombinationItr \<Rightarrow> bool" where
  "CombinationItr_are_equal it other \<longleftrightarrow>
     c_set it = c_set other \<and> PermutationItr_are_equal (c_current_perm it) (c_current_perm other)"

text \<open>
  \<^verbatim>\<open>Combinations\<close> and \<^verbatim>\<open>CombinationsWithRepeat\<close> build the begin iterator, the end
  iterator and the size, in this order; \<open>make_combinations\<close> is their common shape with
  the first argument of the binomial coefficient as \<open>n\<close>.
\<close>

definition make_combinations ::
  "bool \<Rightarrow> 'a::zero list \<Rightarrow> size_t \<Rightarrow> size_t \<Rightarrow> error + 'a CombinationItr RangeContainer" where
  "make_combinations repeat container k n =
     (case CombinationItr_ctor repeat container k False of
        Inl e \<Rightarrow> Inl e
      | Inr start_itr \<Rightarrow>
          (case CombinationItr_ctor repeat container k True of
             Inl e \<Rightarrow> Inl e
           | Inr end_itr \<Rightarrow>
               (case binomial_coefficient n k of
                  Inl e \<Rightarrow> Inl e
                | Inr size_in \<Rightarrow>
                    Inr \<lparr>rc_start = start_itr, rc_end = end_itr, rc_size = size_in\<rparr>)))"

definition CombinationsWithRepeat ::
  "'a::zero list \<Rightarrow> size_t \<Rightarrow> error + 'a CombinationItr RangeContainer" where
  "CombinationsWithRepeat container k =
     make_combinations True container k (of_nat (length container) + k - 1)"

definition Combinations ::
  "'a::zero list \<Rightarrow> size_t \<Rightarrow> error + 'a CombinationItr RangeContainer" where
  "Combinations container k = make_combinations False container k (of_nat (length container))"

definition Combinations_elements ::
  "bool \<Rightarrow> 'a CombinationItr RangeContainer \<Rightarrow> (error + 'a list list) option" where
  "Combinations_elements repeat c =
     range_for CombinationItr_are_equal (\<lambda>it. Inr (CombinationItr_dereference it))
       (\<lambda>it. Some (CombinationItr_increment repeat it)) (rc_start c) (rc_end c) []"

section \<open>tuple_utilities.hpp\<close>

text \<open>
  A tuple of \<open>N\<close> elements is the list of its elements, so the template index \<open>I\<close> of
  \<^verbatim>\<open>std::get<I>\<close> is a position in the list and a functor's \<^verbatim>\<open>run<I>\<close> takes \<open>I\<close> as its
  first argument. \<^verbatim>\<open>tuple_accumulate\<close> folds from index 0, \<^verbatim>\<open>tuple_find_if\<close> returns
  the first index on which the functor holds and the size of the tuple when there is
  none, \<^verbatim>\<open>tuple_transform\<close> applies the functor to every element.
\<close>

fun tuple_accumulate :: "'t list \<Rightarrow> ('r \<Rightarrow> 't \<Rightarrow> 'r) \<Rightarrow> 'r \<Rightarrow> 'r" where
  "tuple_accumulate [] functor val = val"
| "tuple_accumulate (x # tuple) functor val = tuple_accumulate tuple functor (functor val x)"

fun tuple_find_if_impl :: "nat \<Rightarrow> 't list \<Rightarrow> (nat \<Rightarrow> 't \<Rightarrow> bool) \<Rightarrow> nat" where
  "tuple_find_if_impl I [] functor = I"
| "tuple_find_if_impl I (x # t) functor =
     (if functor I x then I else tuple_find_if_impl (Suc I) t functor)"

definition tuple_find_if :: "'t list \<Rightarrow> (nat \<Rightarrow> 't \<Rightarrow> bool) \<Rightarrow> nat" where
  "tuple_find_if t functor = tuple_find_if_impl 0 t functor"

definition tuple_transform :: "'t list \<Rightarrow> (nat \<Rightarrow> 't \<Rightarrow> 'u) \<Rightarrow> 'u list" where
  "tuple_transform tuple functor = map (\<lambda>(I, x). functor I x) (enumerate 0 tuple)"

section \<open>cartesian_product.hpp\<close>

text \<open>
  The size functor multiplies in \<^verbatim>\<open>std::size_t\<close>. The iterators of the components
  are positions in \<^verbatim>\<open>std::vector\<close>s, so a tuple of iterators is a list of positions.
\<close>

definition CartSizeFunctor_initial_value :: size_t where
  "CartSizeFunctor_initial_value = 1"

definition CartSizeFunctor_run :: "size_t \<Rightarrow> 'a list \<Rightarrow> size_t" where
  "CartSizeFunctor_run curr_min container = curr_min * of_nat (length container)"

definition AtEnd_run :: "nat list \<Rightarrow> nat \<Rightarrow> nat \<Rightarrow> bool" where
  "AtEnd_run end_it I elem \<longleftrightarrow> elem = end_it ! I"

definition Reseter_run :: "nat list \<Rightarrow> nat \<Rightarrow> nat \<Rightarrow> nat \<Rightarrow> nat" where
  "Reseter_run start turn_on I itr = (if I \<ge> turn_on then start ! I else itr)"

definition Incrementer_run :: "nat \<Rightarrow> nat \<Rightarrow> nat \<Rightarrow> nat" where
  "Incrementer_run turn_on I itr = (if I = turn_on then itr + 1 else itr)"

text \<open>
  \<^verbatim>\<open>CartIncrementFunctor::run(start, end, value, ...)\<close>: the \<^verbatim>\<open>while(true)\<close> loop with
  \<^verbatim>\<open>idx\<close> as its state. \<^verbatim>\<open>Incrementer::run\<close> receives the element of \<^verbatim>\<open>value\<close> by
  reference, so \<^verbatim>\<open>++itr\<close> moves the iterator inside \<^verbatim>\<open>value\<close> too and \<^verbatim>\<open>temp_value\<close> is a
  copy of the moved tuple. Moving a vector's iterator that is already at the end is
  undefined. The three tuples have one type, hence one length.
\<close>

partial_function (option) CartIncrementFunctor_loop ::
  "nat list \<Rightarrow> nat list \<Rightarrow> nat \<Rightarrow> nat list \<Rightarrow> (error + nat list) option" where
  "CartIncrementFunctor_loop start end_it idx val =
     (if idx = 0 then Some (Inr val)
      else if end_it ! (idx - 1) \<le> val ! (idx - 1) then Some (Inl undefined_behaviour)
      else
        (let val = tuple_transform val (Incrementer_run (idx - 1));
             temp_value = val;
             new_idx = tuple_find_if temp_value (AtEnd_run end_it)
         in if new_idx = idx
            then Some (Inr (tuple_transform temp_value (Reseter_run start idx)))
            else CartIncrementFunctor_loop start end_it new_idx val))"

declare CartIncrementFunctor_loop.simps [code]

definition CartIncrementFunctor_run ::
  "nat list \<Rightarrow> nat list \<Rightarrow> nat list \<Rightarrow> (error + nat list) option" where
  "CartIncrementFunctor_run start end_it val =
     CartIncrementFunctor_loop start end_it (length val) val"

section \<open>The tuple container\<close>

text \<open>
  Modelled from the spec: \<^verbatim>\<open>TupleContainerImpl\<close> and its iterator, of
  \<^verbatim>\<open>tuple_container.hpp\<close>, which is not among the sources. The spec's tuple driver owns
  the component containers, and its iterator is a tuple of component iterators paired
  with the policy functor that ticks them.
\<close>

record 'a TupleItr =
  t_containers :: "'a list list"
  t_start :: "nat list"
  t_end :: "nat list"
  t_value :: "nat list"

text \<open>
  Modelled from the spec: \<^verbatim>\<open>size()\<close> of the tuple container for the Cartesian product,
  the reduction of the size policy over the component containers from the policy's
  initial value. The empty tuple is left to the container by the comment at
  \<^verbatim>\<open>CartSizeFunctor\<close>, and the test suite requires size 0 of \<^verbatim>\<open>CartesianProduct()\<close>.
\<close>

definition CartesianProduct_size :: "'a list list \<Rightarrow> size_t" where
  "CartesianProduct_size containers =
     (if containers = [] then 0
      else tuple_accumulate containers CartSizeFunctor_run CartSizeFunctor_initial_value)"

text \<open>
  Modelled from the spec: \<^verbatim>\<open>begin()\<close> and \<^verbatim>\<open>end()\<close> of the tuple container, the tuples
  of the components' \<^verbatim>\<open>begin()\<close> and \<^verbatim>\<open>end()\<close> iterators.
\<close>

definition CartesianProduct_begin :: "'a list list \<Rightarrow> 'a TupleItr" where
  "CartesianProduct_begin containers =
     \<lparr>t_containers = containers, t_start = map (\<lambda>c. 0) containers,
      t_end = map length containers, t_value = map (\<lambda>c. 0) containers\<rparr>"

definition CartesianProduct_end :: "'a list list \<Rightarrow> 'a TupleItr" where
  "CartesianProduct_end containers =
     \<lparr>t_containers = containers, t_start = map (\<lambda>c. 0) containers,
      t_end = map length containers, t_value = map length containers\<rparr>"

text \<open>
  Modelled from the spec: the three primitives of the tuple iterator. A tick is the
  increment policy on the tuple of component iterators, equality compares the tuples
  of component iterators, and the value is the tuple of the components' current
  elements (reading a component at its end is undefined).
\<close>

definition TupleItr_increment :: "'a TupleItr \<Rightarrow> (error + 'a TupleItr) option" where
  "TupleItr_increment it =
     map_option (map_sum id (\<lambda>v. it\<lparr>t_value := v\<rparr>))
       (CartIncrementFunctor_run (t_start it) (t_end it) (t_value it))"

definition TupleItr_are_equal :: "'a TupleItr \<Rightarrow> 'a TupleItr \<Rightarrow> bool" where
  "TupleItr_are_equal it rhs \<longleftrightarrow> t_value it = t_value rhs"

definition TupleItr_dereference :: "'a TupleItr \<Rightarrow> error + 'a list" where
  "TupleItr_dereference it =
     (if list_all2 (\<lambda>c i. i < length c) (t_containers it) (t_value it)
      then Inr (map2 (\<lambda>c i. c ! i) (t_containers it) (t_value it))
      else Inl undefined_behaviour)"

definition CartesianProduct_elements :: "'a list list \<Rightarrow> (error + 'a list list) option" where
  "CartesianProduct_elements containers =
     range_for TupleItr_are_equal TupleItr_dereference TupleItr_increment
       (CartesianProduct_begin containers) (CartesianProduct_end containers) []"

section \<open>Properties of the binomial coefficient\<close>

lemma unat_pred: "(n::size_t) \<noteq> 0 \<Longrightarrow> unat n = Suc (unat (n - 1))"
  by (simp add: unat_minus_one unat_gt_0)

text \<open>Below the guard the recursion never throws and returns the binomial coefficient.\<close>

lemma BCImpl_eval_choose:
  "n < 64 \<Longrightarrow> BCImpl_eval n k = Inr (of_nat (unat n choose unat k))"
proof (induction n k rule: BCImpl_eval.induct)
  case (1 n k)
  show ?case
  proof (cases "k = 0")
    case True
    then show ?thesis by (simp add: BCImpl_eval.simps)
  next
    case k0: False
    show ?thesis
    proof (cases "k > n")
      case True
      then have "unat n < unat k" by (simp add: word_less_nat_alt)
      with k0 True show ?thesis by (simp add: BCImpl_eval.simps binomial_eq_0)
    next
      case kn: False
      with k0 have n0: "n \<noteq> 0" by (metis word_le_0_iff not_less)
      have lt: "n - 1 < 64" using "1.prems" n0
        by (simp add: word_less_nat_alt unat_minus_one)
      have a: "BCImpl_eval (n - 1) (k - 1) = Inr (of_nat (unat (n - 1) choose unat (k - 1)))"
        using "1.IH"(1) k0 kn "1.prems" lt by simp
      have b: "BCImpl_eval (n - 1) k = Inr (of_nat (unat (n - 1) choose unat k))"
        using "1.IH"(2) [OF k0 kn "1.prems" a] lt by simp
      have "unat n choose unat k = (unat (n - 1) choose unat (k - 1)) + (unat (n - 1) choose unat k)"
        by (simp add: unat_pred [OF n0] unat_pred [OF k0])
      then show ?thesis
        using k0 kn "1.prems" a b by (subst BCImpl_eval.simps) simp
    qed
  qed
qed

lemma BCImpl_eval_overflow_iff:
  "BCImpl_eval n k = Inl overflow_error \<longleftrightarrow> 64 \<le> n \<and> 0 < k \<and> k \<le> n"
proof (cases "n < 64")
  case True
  then show ?thesis by (simp add: BCImpl_eval_choose not_le [symmetric])
next
  case False
  then show ?thesis
    by (subst BCImpl_eval.simps) (auto simp: word_neq_0_conv not_less)
qed

lemma choose_35_4: "(35::nat) choose 4 = 52360"
proof -
  have a: "(33::nat) choose 2 = 528"
    using times_binomial_minus1_eq [of 2 33] by simp
  have "3 * ((34::nat) choose 3) = 34 * 528"
    using times_binomial_minus1_eq [of 3 34] a by simp
  then have b: "(34::nat) choose 3 = 5984" by simp
  have "4 * ((35::nat) choose 4) = 35 * 5984"
    using times_binomial_minus1_eq [of 4 35] b by simp
  then show ?thesis by simp
qed

text \<open>
  Claim C6. A call that is not one of the two edge cases (so \<open>0 < k \<le> n\<close>) fails with
  \<^verbatim>\<open>std::overflow_error\<close> once \<open>n\<close> is at least 64, the bit width of \<^verbatim>\<open>std::size_t\<close>,
  and no call with a smaller \<open>n\<close> fails. The failure is a result of its own, different
  from every returned number, in particular from the 0 that \<open>k > n\<close> returns.
  \<^verbatim>\<open>binomial_coefficient(99999, 88)\<close> fails with the overflow.
\<close>

theorem binomial_overflow_signalled:
  "(64 \<le> n \<and> 0 < k \<and> k \<le> n \<longrightarrow> binomial_coefficient n k = Inl overflow_error)
   \<and> (binomial_coefficient n k = Inl overflow_error \<longrightarrow> 64 \<le> n)
   \<and> binomial_coefficient 99999 88 = Inl overflow_error
   \<and> binomial_coefficient 99999 88 \<noteq> Inr 0
   \<and> binomial_coefficient 0 1 = Inr 0"
proof -
  have a: "binomial_coefficient 99999 88 = Inl overflow_error"
    by (simp add: binomial_coefficient_def BCImpl_eval_overflow_iff)
  have b: "binomial_coefficient 0 1 = Inr 0"
    by (simp add: binomial_coefficient_def BCImpl_eval.simps)
  have c: "64 \<le> n \<and> 0 < k \<and> k \<le> n \<longrightarrow> binomial_coefficient n k = Inl overflow_error"
    by (simp add: binomial_coefficient_def BCImpl_eval_overflow_iff)
  have d: "binomial_coefficient n k = Inl overflow_error \<longrightarrow> 64 \<le> n"
    by (simp add: binomial_coefficient_def BCImpl_eval_overflow_iff)
  from a have e: "binomial_coefficient 99999 88 \<noteq> Inr 0" by simp
  from a b c d e show ?thesis by blast
qed

theorem binomial_overflow_signalled_witness:
  "(64::size_t) \<le> 64 \<and> (0::size_t) < 1 \<and> (1::size_t) \<le> 64
   \<and> binomial_coefficient 64 1 = Inl overflow_error"
  using binomial_overflow_signalled [of 64 1] by simp

text \<open>
  Claim C9. For every \<open>n\<close>, zero included, \<^verbatim>\<open>binomial_coefficient(n, 0)\<close> is 1; for every
  \<open>k > n\<close>, \<^verbatim>\<open>binomial_coefficient(n, k)\<close> is 0; and \<^verbatim>\<open>binomial_coefficient(35, 4)\<close> is
  52360.
\<close>

theorem binomial_edge_cases:
  "binomial_coefficient n 0 = Inr 1
   \<and> (n < k \<longrightarrow> binomial_coefficient n k = Inr 0)
   \<and> binomial_coefficient 35 4 = Inr 52360"
proof -
  have "binomial_coefficient 35 4 = Inr 52360"
    using BCImpl_eval_choose [of 35 4] by (simp add: binomial_coefficient_def choose_35_4)
  moreover have "n < k \<longrightarrow> binomial_coefficient n k = Inr 0"
    by (auto simp: binomial_coefficient_def BCImpl_eval.simps [of n k])
  ultimately show ?thesis
    by (simp add: binomial_coefficient_def BCImpl_eval.simps [of n 0])
qed

theorem binomial_edge_cases_witness:
  "(0::size_t) < 1 \<and> binomial_coefficient 0 0 = Inr 1 \<and> binomial_coefficient 0 1 = Inr 0
   \<and> binomial_coefficient 4 0 = Inr 1"
  using binomial_edge_cases [of 0 1] binomial_edge_cases [of 4 1] by simp

text \<open>
  Claim C10. The base cases are tested before the overflow guard: at or above the
  bound, \<open>k = 0\<close> still returns 1 and \<open>k > n\<close> still returns 0, and the overflow is raised
  exactly when \<open>64 \<le> n\<close> and \<open>0 < k \<le> n\<close>.
\<close>

theorem binomial_base_cases_precede_overflow:
  "(64 \<le> n \<longrightarrow> binomial_coefficient n 0 = Inr 1)
   \<and> (64 \<le> n \<and> n < k \<longrightarrow> binomial_coefficient n k = Inr 0)
   \<and> (binomial_coefficient n k = Inl overflow_error \<longleftrightarrow> 64 \<le> n \<and> 0 < k \<and> k \<le> n)"
proof -
  have "binomial_coefficient n 0 = Inr 1"
    by (simp add: binomial_coefficient_def BCImpl_eval.simps [of n 0])
  moreover have "n < k \<longrightarrow> binomial_coefficient n k = Inr 0"
    by (auto simp: binomial_coefficient_def BCImpl_eval.simps [of n k])
  ultimately show ?thesis
    by (simp add: binomial_coefficient_def BCImpl_eval_overflow_iff)
qed

theorem binomial_base_cases_precede_overflow_witness:
  "(64::size_t) \<le> 64 \<and> (64::size_t) < 65
   \<and> binomial_coefficient 64 0 = Inr 1 \<and> binomial_coefficient 64 65 = Inr 0
   \<and> binomial_coefficient 64 64 = Inl overflow_error"
  using binomial_base_cases_precede_overflow [of 64 65]
    binomial_base_cases_precede_overflow [of 64 64] by simp

section \<open>Properties of the permutation iterator\<close>

text \<open>A range with no position to permute is reversed, in either direction.\<close>

lemma permute_suffix_desc:
  fixes xs :: "'a::linorder list"
  shows "sorted (rev xs) \<Longrightarrow> permute_suffix (<) xs = None"
proof (induction xs rule: induct_list012)
  case (3 x y zs)
  from "3.prems" have "sorted (rev (y # zs))" and "y \<le> x"
    by (auto simp: sorted_append)
  with "3.IH"(2) show ?case by simp
qed simp_all

lemma permute_suffix_asc:
  fixes xs :: "'a::linorder list"
  shows "sorted xs \<Longrightarrow> permute_suffix (>) xs = None"
proof (induction xs rule: induct_list012)
  case (3 x y zs)
  from "3.prems" have "sorted (y # zs)" and "x \<le> y"
    by auto
  with "3.IH"(2) show ?case by simp
qed simp_all

lemma next_permutation_greatest: "next_permutation (rev (sort xs)) = sort xs"
  by (simp add: next_permutation_def permute_suffix_desc)

lemma prev_permutation_least: "prev_permutation (sort xs) = rev (sort xs)"
  by (simp add: prev_permutation_def permute_suffix_asc)

text \<open>
  Claim C3. The container \<^verbatim>\<open>Permutations({1,2,3})\<close> runs from the iterator at offset 0 to
  the iterator at offset 6, and a loop over it reads exactly the six permutations in
  lexicographic order. For \<^verbatim>\<open>{1,2,2}\<close> the loop reads exactly the three distinct
  permutations, as many as \<^verbatim>\<open>n_permutations\<close> counts and the container's size says.
\<close>

theorem Permutations_iteration_complete:
  "p_offset (rc_start (Permutations [1, 2, 3 :: int])) = 0
   \<and> p_offset (rc_end (Permutations [1, 2, 3 :: int])) = 6
   \<and> Permutations_elements (Permutations [1, 2, 3 :: int])
       = Some (Inr [[1, 2, 3], [1, 3, 2], [2, 1, 3], [2, 3, 1], [3, 1, 2], [3, 2, 1]])
   \<and> Permutations_elements (Permutations [1, 2, 2 :: int])
       = Some (Inr [[1, 2, 2], [2, 1, 2], [2, 2, 1]])
   \<and> n_permutations [1, 2, 2 :: int] = 3
   \<and> RangeContainer_size (Permutations [1, 2, 2 :: int]) = 3"
  by code_simp

text \<open>
  Claim C4. Incrementing the greatest arrangement of any sequence, its descending
  sort, gives the least one, its ascending sort, and decrementing the least gives the
  greatest. The iterator started at \<^verbatim>\<open>{1,3,2}\<close> reads
  \<^verbatim>\<open>{1,3,2},{2,1,3},{2,3,1},{3,1,2},{3,2,1},{1,2,3}\<close> on its way to the end iterator,
  six different arrangements and the same six as the run from \<^verbatim>\<open>{1,2,3}\<close> reads, and
  after the six steps it holds \<^verbatim>\<open>{1,3,2}\<close> again and is equal to the end iterator.
\<close>

theorem PermutationItr_wraparound:
  "p_set (PermutationItr_increment (it\<lparr>p_set := rev (sort xs)\<rparr>)) = sort xs
   \<and> p_set (PermutationItr_decrement (it\<lparr>p_set := sort xs\<rparr>)) = rev (sort xs)
   \<and> Permutations_elements (Permutations [1, 3, 2 :: int])
       = Some (Inr [[1, 3, 2], [2, 1, 3], [2, 3, 1], [3, 1, 2], [3, 2, 1], [1, 2, 3]])
   \<and> distinct [[1, 3, 2], [2, 1, 3], [2, 3, 1], [3, 1, 2], [3, 2, 1], [1, 2, 3 :: int]]
   \<and> map_option (map_sum id set) (Permutations_elements (Permutations [1, 3, 2 :: int]))
       = map_option (map_sum id set) (Permutations_elements (Permutations [1, 2, 3 :: int]))
   \<and> p_set ((PermutationItr_increment ^^ 6) (PermutationItr_ctor [1, 3, 2 :: int] 0)) = [1, 3, 2]
   \<and> PermutationItr_are_equal
        ((PermutationItr_increment ^^ 6) (rc_start (Permutations [1, 3, 2 :: int])))
        (rc_end (Permutations [1, 3, 2 :: int]))"
proof -
  have a: "p_set (PermutationItr_increment (it\<lparr>p_set := rev (sort xs)\<rparr>)) = sort xs"
    by (simp add: PermutationItr_increment_def next_permutation_greatest)
  have b: "p_set (PermutationItr_decrement (it\<lparr>p_set := sort xs\<rparr>)) = rev (sort xs)"
    by (simp add: PermutationItr_decrement_def prev_permutation_least)
  have c: "Permutations_elements (Permutations [1, 3, 2 :: int])
       = Some (Inr [[1, 3, 2], [2, 1, 3], [2, 3, 1], [3, 1, 2], [3, 2, 1], [1, 2, 3]])"
    by code_simp
  have d: "distinct [[1, 3, 2], [2, 1, 3], [2, 3, 1], [3, 1, 2], [3, 2, 1], [1, 2, 3 :: int]]"
    by simp
  have "Permutations_elements (Permutations [1, 2, 3 :: int])
       = Some (Inr [[1, 2, 3], [1, 3, 2], [2, 1, 3], [2, 3, 1], [3, 1, 2], [3, 2, 1]])"
    by code_simp
  with c have g: "map_option (map_sum id set) (Permutations_elements (Permutations [1, 3, 2 :: int]))
       = map_option (map_sum id set) (Permutations_elements (Permutations [1, 2, 3 :: int]))"
    by auto
  have e: "p_set ((PermutationItr_increment ^^ 6) (PermutationItr_ctor [1, 3, 2 :: int] 0)) = [1, 3, 2]"
    by code_simp
  have f: "PermutationItr_are_equal
        ((PermutationItr_increment ^^ 6) (rc_start (Permutations [1, 3, 2 :: int])))
        (rc_end (Permutations [1, 3, 2 :: int]))"
    by code_simp
  from a b c d e f g show ?thesis by blast
qed

section \<open>The factorial number system on a sequence with repeated elements\<close>

text \<open>
  Claim C1 at \<open>s = {1,1,2,2}\<close> and \<open>r = 3\<close>. The sequence has six permutations, so 3 is
  a rank. \<^verbatim>\<open>decimal_to_permutation(3, s)\<close> is \<^verbatim>\<open>{2,1,1,2}\<close>, the fourth permutation, but
  \<^verbatim>\<open>permutation_to_decimal({2,1,1,2}, s)\<close> is 2: the digits are \<open>2,0,0,0\<close> and the first
  place value is \<open>6 / 4\<close>, which the unsigned division makes 1. The permutation
  \<^verbatim>\<open>{1,2,2,1}\<close> has the number 2 as well, and \<^verbatim>\<open>decimal_to_permutation(2, s)\<close> returns it.
\<close>

theorem FNS_round_trip_1122:
  "n_permutations [1, 1, 2, 2 :: int] = 6
   \<and> decimal_to_permutation 3 [1, 1, 2, 2 :: int] = Some (Inr [2, 1, 1, 2])
   \<and> permutation_to_fns [2, 1, 1, 2] [1, 1, 2, 2 :: int] = [2, 0, 0, 0]
   \<and> fns_place_values [2, 1, 1, 2 :: int] = [1, 1, 1, 1]
   \<and> permutation_to_decimal [2, 1, 1, 2] [1, 1, 2, 2 :: int] = 2
   \<and> permutation_to_decimal [1, 2, 2, 1] [1, 1, 2, 2 :: int] = 2
   \<and> decimal_to_permutation 2 [1, 1, 2, 2 :: int] = Some (Inr [1, 2, 2, 1])"
  by code_simp

text \<open>
  Claim C2 at the iterator \<^verbatim>\<open>PermutationItr({2,1,1,2}, 0)\<close> and \<open>n = 1\<close>. The constructor
  computes \<^verbatim>\<open>dx_ = 2\<close> for the fourth permutation, \<^verbatim>\<open>advance(1)\<close> therefore asks for
  permutation number 3 of \<^verbatim>\<open>{1,1,2,2}\<close>, which is \<^verbatim>\<open>{2,1,1,2}\<close> itself, while one
  increment moves on to \<^verbatim>\<open>{2,1,2,1}\<close>. Both reach offset 1, and they are not equal.
\<close>

theorem PermutationItr_advance_2112:
  "p_dx (PermutationItr_ctor [2, 1, 1, 2 :: int] 0) = 2
   \<and> map_option (map_sum id p_set) (PermutationItr_advance (PermutationItr_ctor [2, 1, 1, 2 :: int] 0) 1)
       = Some (Inr [2, 1, 1, 2])
   \<and> map_option (map_sum id p_offset) (PermutationItr_advance (PermutationItr_ctor [2, 1, 1, 2 :: int] 0) 1)
       = Some (Inr 1)
   \<and> p_set (PermutationItr_steps (PermutationItr_ctor [2, 1, 1, 2 :: int] 0) 1) = [2, 1, 2, 1]
   \<and> p_offset (PermutationItr_steps (PermutationItr_ctor [2, 1, 1, 2 :: int] 0) 1) = 1
   \<and> map_option (map_sum id
         (\<lambda>a. PermutationItr_are_equal a (PermutationItr_steps (PermutationItr_ctor [2, 1, 1, 2 :: int] 0) 1)))
       (PermutationItr_advance (PermutationItr_ctor [2, 1, 1, 2 :: int] 0) 1) = Some (Inr False)"
  by code_simp

text \<open>
  \<^verbatim>\<open>advance\<close> does not wrap around either. A round of the inner loop of
  \<^verbatim>\<open>decimal_to_fns\<close> that finds no digit changes nothing, so the outer loop never ends;
  this is what happens at a rank that is not below the number of permutations. The
  begin iterator of \<^verbatim>\<open>Permutations({1,3,2})\<close> has \<^verbatim>\<open>dx_ = 1\<close>, and \<^verbatim>\<open>advance(5)\<close>, towards the
  last permutation of the container, asks for rank 6 of 6 and does not return.
\<close>

lemma decimal_to_fns_loop_Some:
  "decimal_to_fns_loop new_orig D rv = Some y \<Longrightarrow>
     \<not> (guess_digit new_orig D 0 0 0 = Inr None \<and> new_orig \<noteq> [])"
proof (rule decimal_to_fns_loop.raw_induct
    [where P = "\<lambda>new_orig D rv y. \<not> (guess_digit new_orig D 0 0 0 = Inr None \<and> new_orig \<noteq> [])"])
  fix f :: "'a list \<Rightarrow> size_t \<Rightarrow> size_t list \<Rightarrow> (error + size_t list) option"
    and no :: "'a list" and D rv y
  assume IH: "\<And>D rv b y. f D rv b = Some y
      \<Longrightarrow> \<not> (guess_digit D rv 0 0 0 = Inr None \<and> D \<noteq> [])"
    and step: "(if no = [] then Some (Inr rv)
      else case guess_digit no D 0 0 0 of
             Inl e \<Rightarrow> Some (Inl e)
           | Inr None \<Rightarrow> f no D rv
           | Inr (Some (digit_i, temp, D')) \<Rightarrow> f temp D' (rv @ [digit_i])) = Some y"
  show "\<not> (guess_digit no D 0 0 0 = Inr None \<and> no \<noteq> [])"
  proof
    assume a: "guess_digit no D 0 0 0 = Inr None \<and> no \<noteq> []"
    with step have "f no D rv = Some y" by simp
    with IH a show False by blast
  qed
qed

lemma decimal_to_fns_loop_stuck:
  assumes "guess_digit new_orig D 0 0 0 = Inr None" "new_orig \<noteq> []"
  shows "decimal_to_fns_loop new_orig D rv = None"
  using assms decimal_to_fns_loop_Some [of new_orig D rv]
  by (cases "decimal_to_fns_loop new_orig D rv") auto

lemma PermutationItr_advance_no_wrap:
  "PermutationItr_advance (rc_start (Permutations [1, 3, 2 :: int])) 5 = None
   \<and> p_set (PermutationItr_steps (rc_start (Permutations [1, 3, 2 :: int])) 5) = [1, 2, 3]"
proof -
  have "guess_digit [1, 2, 3 :: int] 6 0 0 0 = Inr None" by code_simp
  then have "decimal_to_fns_loop [1, 2, 3 :: int] 6 [] = None"
    by (rule decimal_to_fns_loop_stuck) simp
  moreover have "sort [1, 3, 2 :: int] = [1, 2, 3]" by simp
  moreover have "permutation_to_decimal [1, 3, 2 :: int] [1, 2, 3] = 1" by code_simp
  ultimately have "PermutationItr_advance (rc_start (Permutations [1, 3, 2 :: int])) 5 = None"
    by (simp add: PermutationItr_advance_def Permutations_def PermutationItr_ctor_def
        decimal_to_permutation_def decimal_to_fns_def Let_def)
  moreover have "p_set (PermutationItr_steps (rc_start (Permutations [1, 3, 2 :: int])) 5) = [1, 2, 3]"
    by code_simp
  ultimately show ?thesis by simp
qed

section \<open>Combinations\<close>

text \<open>
  The enumerations of the test suite: two of \<^verbatim>\<open>{1,2,3}\<close> without repetition, two of
  \<^verbatim>\<open>{1,2}\<close> with repetition, and none of either, which is the empty combination once.
\<close>

lemma Combinations_enumerated:
  "map_sum id (Combinations_elements False) (Combinations [1, 2, 3 :: int] 2)
     = Inr (Some (Inr [[1, 2], [1, 3], [2, 3]]))
   \<and> map_sum id (Combinations_elements True) (CombinationsWithRepeat [1, 2 :: int] 2)
     = Inr (Some (Inr [[1, 1], [1, 2], [2, 2]]))
   \<and> map_sum id (Combinations_elements False) (Combinations [1, 2, 3 :: int] 0)
     = Inr (Some (Inr [[]]))
   \<and> map_sum id (Combinations_elements True) (CombinationsWithRepeat [1, 2 :: int] 0)
     = Inr (Some (Inr [[]]))"
  by code_simp

text \<open>
  For \<open>k = 0\<close> the mask is all true and \<^verbatim>\<open>update_comb\<close> has nothing to write, so the
  constructor returns the iterator over the mask's permutations that it was asked for.
\<close>

lemma update_comb_loop_no_choice:
  "update_comb_loop repeat s (replicate m True) i 0 bar_count [] = Inr []"
  by (cases m) simp_all

lemma CombinationItr_ctor_0:
  "CombinationItr_ctor repeat s 0 at_end
     = (let n = of_nat (length s) :: size_t;
            perms = Permutations (replicate (unat (if \<not> repeat then n
                      else if n \<noteq> 0 then n - 1 else 0)) True)
        in Inr \<lparr>c_set = s, c_comb = [],
                c_current_perm = (if at_end then rc_end perms else rc_start perms)\<rparr>)"
  by (simp add: CombinationItr_ctor_def Let_def update_comb_def PermutationItr_dereference_def
      Permutations_def PermutationItr_ctor_def update_comb_loop_no_choice)

text \<open>
  When \<^verbatim>\<open>n_permutations\<close> of the mask is 0 the begin and the end iterator of
  \<^verbatim>\<open>Permutations(mask)\<close> are the same, and a loop from one to the other reads nothing.
\<close>

lemma make_combinations_0_empty:
  assumes "n_permutations (replicate (unat (if \<not> repeat then of_nat (length s) :: size_t
             else if (of_nat (length s) :: size_t) \<noteq> 0 then of_nat (length s) - 1 else 0)) True) = 0"
  shows "map_sum id (\<lambda>c. (RangeContainer_size c, Combinations_elements repeat c))
           (make_combinations repeat s 0 n) = Inr (1, Some (Inr []))"
  using assms
  by (simp add: make_combinations_def CombinationItr_ctor_0 Let_def Permutations_def
      binomial_coefficient_def BCImpl_eval.simps [of n 0] RangeContainer_size_def
      Combinations_elements_def range_for.simps CombinationItr_are_equal_def
      PermutationItr_are_equal_def)

lemma n_permutations_63_equal: "n_permutations (replicate 63 True) = 0"
  by code_simp

text \<open>
  Claim C7 at a sequence of 63 elements and \<open>k = 0\<close>. The mask has 63 equal entries,
  and \<^verbatim>\<open>n_permutations\<close> of it is \<^verbatim>\<open>MCImpl::eval({63})\<close>, whose product
  \<^verbatim>\<open>result * numerator\<close> leaves 64 bits on the way: the result is 0, where one element
  less still gives 1. The begin and the end iterator are then equal, and a loop over
  \<^verbatim>\<open>Combinations(s, 0)\<close> reads no combination at all, although the container's size is
  1. \<^verbatim>\<open>CombinationsWithRepeat(s, 0)\<close> does the same at 64 elements.
\<close>

theorem Combinations_choose_0_of_63:
  "multinomial_coefficient [62] = 1
   \<and> multinomial_coefficient [63] = 0
   \<and> map_sum id (\<lambda>c. (RangeContainer_size c, Combinations_elements False c))
        (Combinations (map int [1..<64]) 0) = Inr (1, Some (Inr []))
   \<and> map_sum id (\<lambda>c. (RangeContainer_size c, Combinations_elements True c))
        (CombinationsWithRepeat (map int [1..<65]) 0) = Inr (1, Some (Inr []))"
proof -
  have a: "multinomial_coefficient [62] = 1" by code_simp
  have b: "multinomial_coefficient [63] = 0" by code_simp
  have c: "map_sum id (\<lambda>c. (RangeContainer_size c, Combinations_elements False c))
        (Combinations (map int [1..<64]) 0) = Inr (1, Some (Inr []))"
    unfolding Combinations_def
    by (rule make_combinations_0_empty) (simp add: n_permutations_63_equal)
  have d: "map_sum id (\<lambda>c. (RangeContainer_size c, Combinations_elements True c))
        (CombinationsWithRepeat (map int [1..<65]) 0) = Inr (1, Some (Inr []))"
    unfolding CombinationsWithRepeat_def
    by (rule make_combinations_0_empty) (simp add: n_permutations_63_equal)
  from a b c d show ?thesis by blast
qed

section \<open>The size of a range\<close>







section \<open>The Cartesian product\<close>

text \<open>The size policy multiplies the lengths of the components, in \<^verbatim>\<open>std::size_t\<close>.\<close>

lemma tuple_accumulate_CartSize:
  "tuple_accumulate containers CartSizeFunctor_run v
     = v * of_nat (prod_list (map length containers))"
  by (induction containers arbitrary: v) (simp_all add: CartSizeFunctor_run_def algebra_simps)

lemma unat_CartesianProduct_size:
  "containers \<noteq> [] \<Longrightarrow>
     unat (CartesianProduct_size containers) = prod_list (map length containers) mod 2 ^ 64"
  by (simp add: CartesianProduct_size_def tuple_accumulate_CartSize
      CartSizeFunctor_initial_value_def unat_of_nat)

text \<open>
  One tick on two components is the step of an odometer: the right position moves
  first, and when it would reach its end it returns to its start and the left position
  moves; when that reaches its end too the tuple is the end tuple.
\<close>

lemma CartIncrementFunctor_run_two:
  assumes "i < m" "j < n"
  shows "CartIncrementFunctor_run [0, 0] [m, n] [i, j]
    = Some (Inr (if Suc j < n then [i, Suc j] else if Suc i < m then [Suc i, 0] else [m, n]))"
  using assms
  by (auto simp: CartIncrementFunctor_run_def CartIncrementFunctor_loop.simps [of _ _ "Suc _"]
      CartIncrementFunctor_loop.simps [of _ _ 0] numeral_2_eq_2
      tuple_transform_def tuple_find_if_def Incrementer_run_def AtEnd_run_def Reseter_run_def
      Let_def)

text \<open>
  Claim C8 as stated fails where the product leaves 64 bits: two components of
  \<open>2^32\<close> elements each give size 0, and neither component is empty.
\<close>

theorem CartesianProduct_size_wraps:
  "CartesianProduct_size [replicate (2 ^ 32) (0::int), replicate (2 ^ 32) 0] = 0
   \<and> prod_list (map length [replicate (2 ^ 32) (0::int), replicate (2 ^ 32) 0]) = 2 ^ 64
   \<and> unat (CartesianProduct_size [replicate (2 ^ 32) (0::int), replicate (2 ^ 32) 0])
       \<noteq> prod_list (map length [replicate (2 ^ 32) (0::int), replicate (2 ^ 32) 0])"
proof -
  have "unat (CartesianProduct_size [replicate (2 ^ 32) (0::int), replicate (2 ^ 32) 0]) = 0"
    by (simp add: unat_CartesianProduct_size)
  then show ?thesis by (simp add: unat_eq_0)
qed

text \<open>
  Claim C8, amended. For one or more components \<^verbatim>\<open>size()\<close> is the product of the
  component sizes modulo \<open>2^64\<close>: the product itself when that is below \<open>2^64\<close>, and 0
  when a component is empty. \<^verbatim>\<open>CartesianProduct([1,2,3],[1,3])\<close> has size 6 and yields
  the six pairs in lexicographic order, the first list varying slowest.
\<close>

theorem CartesianProduct_size_and_order:
  "(containers \<noteq> [] \<longrightarrow>
      unat (CartesianProduct_size containers) = prod_list (map length containers) mod 2 ^ 64)
   \<and> (containers \<noteq> [] \<and> prod_list (map length containers) < 2 ^ 64 \<longrightarrow>
      unat (CartesianProduct_size containers) = prod_list (map length containers))
   \<and> ([] \<in> set containers \<longrightarrow> CartesianProduct_size containers = 0)
   \<and> CartesianProduct_size [[1, 2, 3], [1, 3 :: int]] = 6
   \<and> CartesianProduct_elements [[1, 2, 3], [1, 3 :: int]]
       = Some (Inr [[1, 1], [1, 3], [2, 1], [2, 3], [3, 1], [3, 3]])"
proof -
  have a: "[] \<in> set containers \<longrightarrow> CartesianProduct_size containers = 0"
  proof
    assume e: "[] \<in> set containers"
    then have "0 \<in> set (map length containers)" by force
    then have "prod_list (map length containers) = 0" by (simp add: prod_list_zero_iff)
    moreover from e have "containers \<noteq> []" by auto
    ultimately have "unat (CartesianProduct_size containers) = 0"
      by (simp add: unat_CartesianProduct_size)
    then show "CartesianProduct_size containers = 0" by (simp add: unat_eq_0)
  qed
  have b: "CartesianProduct_size [[1, 2, 3], [1, 3 :: int]] = 6" by code_simp
  have c: "CartesianProduct_elements [[1, 2, 3], [1, 3 :: int]]
       = Some (Inr [[1, 1], [1, 3], [2, 1], [2, 3], [3, 1], [3, 3]])"
    by code_simp
  from a b c show ?thesis by (simp add: unat_CartesianProduct_size)
qed

theorem CartesianProduct_size_and_order_witness:
  "[[1, 2, 3], [1, 3 :: int]] \<noteq> []
   \<and> prod_list (map length [[1, 2, 3], [1, 3 :: int]]) < 2 ^ 64
   \<and> unat (CartesianProduct_size [[1, 2, 3], [1, 3 :: int]]) = 6
   \<and> [] \<in> set [[1, 2, 3], [] :: int list]
   \<and> CartesianProduct_size [[1, 2, 3], [] :: int list] = 0"
  using CartesianProduct_size_and_order [of "[[1, 2, 3], [1, 3 :: int]]"]
    CartesianProduct_size_and_order [of "[[1, 2, 3], [] :: int list]"]
  by simp

end
